theory Spec2Isabelle
  imports Complex_Main "HOL-Library.Multiset"
begin

section \<open>JavaScript numbers\<close>

text \<open>
  The scheduling code computes on JavaScript numbers, which are IEEE-754 binary64 values.
  A finite number is modelled by the real it denotes, and every arithmetic operation by
  the exact operation followed by \<open>fl\<close>, rounding to the nearest binary64 value with ties
  to the even significand (53 significant bits, gradual underflow below \<open>2 powi (-1022)\<close>).
  \<open>NaN\<close> and the infinities have no counterpart: results are modelled as long as they
  stay below \<open>2 ^ 1024\<close> in magnitude.
\<close>

text \<open>\<open>ilog2 x\<close> is the binary exponent of a positive \<open>x\<close>: \<open>2 powi ilog2 x \<le> x < 2 powi (ilog2 x + 1)\<close>.\<close>

function ilog2 :: "real \<Rightarrow> int" where
  "ilog2 x = (if x \<le> 0 then 0
              else if x < 1 then ilog2 (2 * x) - 1
              else if 2 \<le> x then ilog2 (x / 2) + 1
              else 0)"
  by pat_completeness auto
termination
proof (relation "measure (\<lambda>x. if x < 1 then nat \<lceil>2 / x\<rceil> else nat \<lceil>x\<rceil>)", goal_cases)
  case 1
  show ?case by simp
next
  case (2 x)
  then have x: "0 < x" "x < 1" by simp_all
  show ?case
  proof (cases "2 * x < 1")
    case True
    have "1 / x + 1 \<le> 2 / x" using x by (simp add: field_simps)
    then have "\<lceil>1 / x\<rceil> + 1 \<le> \<lceil>2 / x\<rceil>" by (metis ceiling_add_one ceiling_mono)
    moreover have "0 < \<lceil>1 / x\<rceil>" using x by simp
    ultimately show ?thesis using True x by simp
  next
    case False
    have "2 * x \<le> 2" using x by simp
    then have "\<lceil>2 * x\<rceil> \<le> 2" by (simp add: ceiling_le_iff)
    moreover have "2 < 2 / x" using x by (simp add: field_simps)
    then have "2 < \<lceil>2 / x\<rceil>" by (simp add: less_ceiling_iff)
    ultimately have "\<lceil>2 * x\<rceil> < \<lceil>2 / x\<rceil>" by linarith
    then show ?thesis using False x by simp
  qed
next
  case (3 x)
  then have x: "2 \<le> x" by simp
  have "x / 2 + 1 \<le> x" using x by simp
  then have "\<lceil>x / 2\<rceil> + 1 \<le> \<lceil>x\<rceil>" by (metis ceiling_add_one ceiling_mono)
  moreover have "0 < \<lceil>x / 2\<rceil>" using x by simp
  ultimately show ?case using x by simp
qed

declare ilog2.simps [simp del]

text \<open>Rounding a real to the nearest integer, a tie going to the even neighbour.\<close>

definition round_even :: "real \<Rightarrow> int" where
  "round_even y = (let f = \<lfloor>y\<rfloor>; r = y - of_int f in
     if r < 1 / 2 then f else if 1 / 2 < r then f + 1 else if even f then f else f + 1)"

definition fl_pos :: "real \<Rightarrow> real" where
  "fl_pos x = (let e = max (ilog2 x - 52) (- 1074)
               in of_int (round_even (x / 2 powi e)) * 2 powi e)"

definition fl :: "real \<Rightarrow> real" where
  "fl x = (if x = 0 then 0 else sgn x * fl_pos \<bar>x\<bar>)"

definition js_add :: "real \<Rightarrow> real \<Rightarrow> real" where
  "js_add a b = fl (a + b)"

definition js_sub :: "real \<Rightarrow> real \<Rightarrow> real" where
  "js_sub a b = fl (a - b)"

definition js_mul :: "real \<Rightarrow> real \<Rightarrow> real" where
  "js_mul a b = fl (a * b)"

definition js_div :: "real \<Rightarrow> real \<Rightarrow> real" where
  "js_div a b = fl (a / b)"

text \<open>A decimal literal of the source denotes the binary64 value nearest to it.\<close>

definition js_lit :: "real \<Rightarrow> real" where
  "js_lit x = fl x"

text \<open>
  \<open>Math.round\<close> returns the integer nearest to its argument, a tie going up. On a
  binary64 argument \<open>\<lfloor>x + 1/2\<rfloor>\<close> (computed exactly) is that integer.
\<close>

definition Math_round :: "real \<Rightarrow> int" where
  "Math_round x = \<lfloor>x + 1 / 2\<rfloor>"

section \<open>Dates\<close>

text \<open>
  A \<open>Date\<close> is its time value: milliseconds since the epoch (UTC), an \<open>int\<close>. The methods
  \<open>setHours\<close>, \<open>setDate\<close> and \<open>getDate\<close> work in the local time of the server, which is
  UTC plus the offset of the server's time zone. That offset, in milliseconds, is the
  argument \<open>tz\<close> of every operation that calls them; it is taken to be the same at all
  times (a zone without daylight-saving changes), so that local days are \<open>86400000\<close> ms
  long.
\<close>

type_synonym Date = int

definition msPerDay :: int where
  "msPerDay = 86400000"

text \<open>
  \<open>d.setHours(h, m, s, ms)\<close>: the same local calendar day, the given local time of day.
\<close>

definition setHours :: "int \<Rightarrow> int \<Rightarrow> int \<Rightarrow> int \<Rightarrow> int \<Rightarrow> Date \<Rightarrow> Date" where
  "setHours tz h m s ms d =
     (let local = d + tz
      in (local - local mod msPerDay) + (((h * 60 + m) * 60 + s) * 1000 + ms) - tz)"

text \<open>\<open>d.setDate(d.getDate() + n)\<close>: the same local time of day, \<open>n\<close> days later.\<close>

definition addDays :: "Date \<Rightarrow> int \<Rightarrow> Date" where
  "addDays d n = d + n * msPerDay"

section \<open>The store\<close>

text \<open>
  The tables the services read and write through the Prisma client, as lists of rows,
  with the columns the scheduling, selection and statistics code uses (the texts of a
  card, its tags and the end of a session play no part). The columns \<open>id\<close> and \<open>userId\<close>
  carry the name of their table: \<open>deck_id\<close>, \<open>deck_userId\<close>, \<open>card_id\<close>, \<open>session_id\<close>,
  \<open>session_userId\<close>. Counts are natural numbers, intervals integers, ease factors and
  quality ratings JavaScript numbers.
\<close>

record Deck =
  deck_id :: string
  deck_userId :: string
  parentId :: "string option"

record Card =
  card_id :: string
  deckId :: string
  easeFactor :: real
  interval :: int
  repetitions :: nat
  nextReviewAt :: Date
  lastReviewAt :: "Date option"
  createdAt :: Date

text \<open>The request body of a review, \<open>ReviewCardInput\<close>.\<close>

record ReviewCardInput =
  quality :: real
  sessionId :: string

record CardReview =
  cardId :: string
  sessionId :: string
  quality :: real
  previousInterval :: int
  previousEaseFactor :: real
  newInterval :: int
  newEaseFactor :: real
  reviewedAt :: Date

record StudySession =
  session_id :: string
  session_userId :: string
  startedAt :: Date

record DB =
  decks :: "Deck list"
  cards :: "Card list"
  reviews :: "CardReview list"
  sessions :: "StudySession list"

section \<open>The SM-2 scheduling step\<close>

record SM2Input =
  quality :: real
  repetitions :: nat
  easeFactor :: real
  interval :: int

record SM2Result =
  repetitions :: nat
  easeFactor :: real
  interval :: int
  nextReviewDate :: Date

definition MIN_EASE_FACTOR :: real where
  "MIN_EASE_FACTOR = js_lit (13 / 10)"

definition DEFAULT_EASE_FACTOR :: real where
  "DEFAULT_EASE_FACTOR = js_lit (5 / 2)"

text \<open>\<open>Math.max(0, Math.min(5, Math.round(quality)))\<close>\<close>

definition clampQuality :: "real \<Rightarrow> int" where
  "clampQuality q = max 0 (min 5 (Math_round q))"

text \<open>
  \<open>Math.max(MIN_EASE_FACTOR, easeFactor + (0.1 - (5 - quality) * (0.08 + (5 - quality) * 0.02)))\<close>
  for the clamped quality \<open>q\<close>.
\<close>

definition newEaseFactor :: "int \<Rightarrow> real \<Rightarrow> real" where
  "newEaseFactor q ef =
     max MIN_EASE_FACTOR
       (js_add ef
          (js_sub (js_lit (1 / 10))
             (js_mul (js_sub 5 (of_int q))
                (js_add (js_lit (8 / 100)) (js_mul (js_sub 5 (of_int q)) (js_lit (2 / 100)))))))"

text \<open>
  \<open>calculateSM2\<close>, with the clock reading of \<open>new Date()\<close> as the argument \<open>now\<close>
  and the offset of the server's time zone as \<open>tz\<close>.
  The repetition count is a natural number, the interval an integer number of days.
\<close>

definition calculateSM2 :: "int \<Rightarrow> Date \<Rightarrow> SM2Input \<Rightarrow> SM2Result" where
  "calculateSM2 tz now input =
     (let q = clampQuality (quality input);
          newEF = newEaseFactor q (SM2Input.easeFactor input);
          (reps, ivl) =
            (if q < 3 then (0, 1)
             else
               let reps = SM2Input.repetitions input + 1 in
               if reps = 1 then (reps, 1)
               else if reps = 2 then (reps, 6)
               else (reps, Math_round (js_mul (of_int (SM2Input.interval input)) newEF)));
          nextReviewDate = setHours tz 0 0 0 0 (addDays now ivl)
      in \<lparr> repetitions = reps,
           easeFactor = js_div (of_int (Math_round (js_mul newEF 100))) 100,
           interval = ivl,
           nextReviewDate = nextReviewDate \<rparr>)"


section \<open>Statistics: retention\<close>

text \<open>The filter \<open>where: { session: { userId } }\<close> on review records.\<close>

definition userReviews :: "DB \<Rightarrow> string \<Rightarrow> CardReview list" where
  "userReviews db userId =
     filter (\<lambda>r. list_ex (\<lambda>s. session_id s = sessionId r \<and> session_userId s = userId) (sessions db))
       (reviews db)"

text \<open>
  \<open>totalReviews > 0 ? Math.round((successfulReviews / totalReviews) * 100) : 0\<close>
\<close>

definition averageRetention :: "nat \<Rightarrow> nat \<Rightarrow> int" where
  "averageRetention successfulReviews totalReviews =
     (if totalReviews > 0
      then Math_round (js_mul (js_div (real successfulReviews) (real totalReviews)) 100)
      else 0)"

text \<open>The \<open>averageRetention\<close> field of \<open>getUserStats\<close>, from the two counts it queries.\<close>

definition getUserStats_averageRetention :: "DB \<Rightarrow> string \<Rightarrow> int" where
  "getUserStats_averageRetention db userId =
     (let totalReviews = length (userReviews db userId);
          successfulReviews = length (filter (\<lambda>r. 3 \<le> CardReview.quality r) (userReviews db userId))
      in averageRetention successfulReviews totalReviews)"

text \<open>A review history of one user: one session, one review record per listed quality.\<close>

definition historyOf :: "real list \<Rightarrow> DB" where
  "historyOf qs =
     \<lparr> decks = [], cards = [],
       reviews = map (\<lambda>q. \<lparr> cardId = ''c'', sessionId = ''s'', CardReview.quality = q,
                               previousInterval = 0, previousEaseFactor = 5 / 2,
                               newInterval = 1, newEaseFactor = 5 / 2, reviewedAt = 0 \<rparr>) qs,
       sessions = [\<lparr> session_id = ''s'', session_userId = ''u'', startedAt = 0 \<rparr>] \<rparr>"

section \<open>Statistics: streaks\<close>

text \<open>
  \<open>d.toISOString().split('T')[0]\<close>: the UTC calendar date of \<open>d\<close> as \<open>YYYY-MM-DD\<close>. The
  string is represented by the number of its day; the strings of two dates (with
  four-digit years) are equal, or ordered, exactly as their day numbers are.
\<close>

definition isoDate :: "Date \<Rightarrow> int" where
  "isoDate d = d div msPerDay"

text \<open>\<open>new Date(dateString).getTime()\<close>: midnight UTC of that day.\<close>

definition dateTime :: "int \<Rightarrow> int" where
  "dateTime day = day * msPerDay"

text \<open>\<open>Math.floor((prevDate.getTime() - currDate.getTime()) / 86400000)\<close>\<close>

definition diffDays :: "int \<Rightarrow> int \<Rightarrow> int" where
  "diffDays prevDate currDate = (dateTime prevDate - dateTime currDate) div 86400000"

text \<open>
  The first loop of \<open>calculateStreaks\<close>, over the adjacent pairs
  \<open>uniqueDates[i - 1], uniqueDates[i]\<close> from \<open>i = 1\<close>; it stops at the first gap.
\<close>

fun currentLoop :: "int list \<Rightarrow> nat \<Rightarrow> nat" where
  "currentLoop (prevDate # currDate # rest) currentStreak =
     (if diffDays prevDate currDate = 1
      then currentLoop (currDate # rest) (currentStreak + 1)
      else currentStreak)"
| "currentLoop uniqueDates currentStreak = currentStreak"

text \<open>The second loop, on the state \<open>(longestStreak, tempStreak)\<close>.\<close>

fun longestLoop :: "int list \<Rightarrow> nat \<times> nat \<Rightarrow> nat \<times> nat" where
  "longestLoop (prevDate # currDate # rest) (longestStreak, tempStreak) =
     (if diffDays prevDate currDate = 1
      then longestLoop (currDate # rest) (longestStreak, tempStreak + 1)
      else longestLoop (currDate # rest) (max longestStreak tempStreak, 1))"
| "longestLoop uniqueDates state = state"

text \<open>
  \<open>calculateStreaks\<close> returns \<open>(currentStreak, longestStreak)\<close>. The clock readings
  \<open>new Date()\<close> and \<open>Date.now()\<close> are the argument \<open>now\<close>.
\<close>

definition calculateStreaks :: "Date \<Rightarrow> DB \<Rightarrow> string \<Rightarrow> nat \<times> nat" where
  "calculateStreaks now db userId =
     (let sess = rev (sort_key startedAt (filter (\<lambda>s. session_userId s = userId) (sessions db)))
      in if length sess = 0 then (0, 0)
      else
        let uniqueDates = rev (sort (remdups (map (\<lambda>s. isoDate (startedAt s)) sess)))
        in if length uniqueDates = 0 then (0, 0)
        else
          let today = isoDate now;
              yesterday = isoDate (now - 86400000);
              streakActive = (uniqueDates ! 0 = today \<or> uniqueDates ! 0 = yesterday);
              currentStreak = (if streakActive then currentLoop uniqueDates 1 else 0);
              (longestStreak, tempStreak) = longestLoop uniqueDates (0, 1);
              longestStreak = max (max longestStreak tempStreak) currentStreak
          in (currentStreak, longestStreak))"

text \<open>The terms in which the streaks are specified.\<close>

text \<open>The study dates of a user: the calendar dates on which one of their sessions started.\<close>

definition studyDays :: "DB \<Rightarrow> string \<Rightarrow> int set" where
  "studyDays db userId =
     (\<lambda>s. isoDate (startedAt s)) ` {s \<in> set (sessions db). session_userId s = userId}"

text \<open>The \<open>k\<close> consecutive days that end with day \<open>m\<close> are all study dates.\<close>

definition consecutiveDays :: "int set \<Rightarrow> int \<Rightarrow> nat \<Rightarrow> bool" where
  "consecutiveDays S m k = ({m - int k <.. m} \<subseteq> S)"

text \<open>A store whose only rows are sessions of user \<open>u\<close>, started at the given times.\<close>

definition sessionsAt :: "Date list \<Rightarrow> DB" where
  "sessionsAt ts =
     \<lparr> decks = [], cards = [], reviews = [],
       sessions = map (\<lambda>t. \<lparr> session_id = ''s'', session_userId = ''u'', startedAt = t \<rparr>) ts \<rparr>"

text \<open>Length of the run of consecutive days at the head of a descending list of days.\<close>

fun run_len :: "int list \<Rightarrow> nat" where
  "run_len (a # b # rest) = (if a - b = 1 then Suc (run_len (b # rest)) else 1)"
| "run_len [a] = 1"
| "run_len [] = 0"

text \<open>Length of the longest run of consecutive days in such a list.\<close>

fun best_run :: "int list \<Rightarrow> nat" where
  "best_run [] = 0"
| "best_run (a # ds) = max (run_len (a # ds)) (best_run ds)"

section \<open>Reviewing and resetting a card\<close>

datatype error = CardNotFound | DeckNotFound | StorageFailure

text \<open>
  A write request to the store either commits or is rejected (the promise of the Prisma
  call rejects and the service function throws, its earlier writes staying in place: the
  services open no transaction). The outcome of each write is an argument of the
  operation that issues it.
\<close>

datatype writeOutcome = Commits | Rejects

text \<open>\<open>prisma.card.findFirst({ where: { id: cardId, deck: { userId } } })\<close>\<close>

definition findCard :: "DB \<Rightarrow> string \<Rightarrow> string \<Rightarrow> Card option" where
  "findCard db userId cid =
     find (\<lambda>c. card_id c = cid \<and>
                list_ex (\<lambda>d. deck_id d = deckId c \<and> deck_userId d = userId) (decks db))
       (cards db)"

text \<open>\<open>prisma.card.update({ where: { id: cardId }, data })\<close> on the card table.\<close>

definition updateCard :: "string \<Rightarrow> (Card \<Rightarrow> Card) \<Rightarrow> Card list \<Rightarrow> Card list" where
  "updateCard cid f cs = map (\<lambda>c. if card_id c = cid then f c else c) cs"

text \<open>The argument of \<open>calculateSM2\<close> in \<open>reviewCard\<close>.\<close>

definition sm2InputOf :: "real \<Rightarrow> Card \<Rightarrow> SM2Input" where
  "sm2InputOf q row =
     \<lparr> quality = q, repetitions = Card.repetitions row,
       easeFactor = Card.easeFactor row, interval = Card.interval row \<rparr>"

text \<open>The \<open>data\<close> of \<open>prisma.cardReview.create\<close> in \<open>reviewCard\<close>.\<close>

definition reviewRecord :: "Date \<Rightarrow> string \<Rightarrow> ReviewCardInput \<Rightarrow> Card \<Rightarrow> SM2Result \<Rightarrow> CardReview" where
  "reviewRecord now cid inp row sm2Result =
     \<lparr> cardId = cid,
       sessionId = ReviewCardInput.sessionId inp,
       CardReview.quality = ReviewCardInput.quality inp,
       previousInterval = Card.interval row,
       previousEaseFactor = Card.easeFactor row,
       newInterval = SM2Result.interval sm2Result,
       newEaseFactor = SM2Result.easeFactor sm2Result,
       reviewedAt = now \<rparr>"

text \<open>The \<open>data\<close> of \<open>prisma.card.update\<close> in \<open>reviewCard\<close>.\<close>

definition scheduled :: "Date \<Rightarrow> SM2Result \<Rightarrow> Card \<Rightarrow> Card" where
  "scheduled now sm2Result c =
     c\<lparr> Card.easeFactor := SM2Result.easeFactor sm2Result,
        Card.interval := SM2Result.interval sm2Result,
        Card.repetitions := SM2Result.repetitions sm2Result,
        nextReviewAt := nextReviewDate sm2Result,
        lastReviewAt := Some now \<rparr>"

text \<open>
  \<open>reviewCard\<close>: the outcome (the error thrown, or the card returned) and the store
  afterwards.
\<close>

definition reviewCard ::
  "writeOutcome \<Rightarrow> writeOutcome \<Rightarrow> int \<Rightarrow> Date \<Rightarrow> string \<Rightarrow> string \<Rightarrow> ReviewCardInput
     \<Rightarrow> DB
     \<Rightarrow> (error + Card) \<times> DB" where
  "reviewCard createOutcome updateOutcome tz now userId cid inp db =
     (case findCard db userId cid of
        None \<Rightarrow> (Inl CardNotFound, db)
      | Some row \<Rightarrow>
          let sm2Result = calculateSM2 tz now (sm2InputOf (ReviewCardInput.quality inp) row) in
          (case createOutcome of
             Rejects \<Rightarrow> (Inl StorageFailure, db)
           | Commits \<Rightarrow>
               let db1 = db\<lparr>reviews := reviews db @ [reviewRecord now cid inp row sm2Result]\<rparr> in
               (case updateOutcome of
                  Rejects \<Rightarrow> (Inl StorageFailure, db1)
                | Commits \<Rightarrow>
                    (Inr (scheduled now sm2Result row),
                     db1\<lparr>cards := updateCard cid (scheduled now sm2Result) (cards db1)\<rparr>))))"

text \<open>The \<open>data\<close> of \<open>prisma.card.update\<close> in \<open>resetCard\<close>.\<close>

definition resetData :: "Date \<Rightarrow> Card \<Rightarrow> Card" where
  "resetData now c =
     c\<lparr> Card.easeFactor := DEFAULT_EASE_FACTOR,
        Card.interval := 0,
        Card.repetitions := 0,
        nextReviewAt := now,
        lastReviewAt := None \<rparr>"

definition resetCard ::
  "writeOutcome \<Rightarrow> Date \<Rightarrow> string \<Rightarrow> string \<Rightarrow> DB \<Rightarrow> (error + Card) \<times> DB" where
  "resetCard updateOutcome now userId cid db =
     (case findCard db userId cid of
        None \<Rightarrow> (Inl CardNotFound, db)
      | Some row \<Rightarrow>
          (case updateOutcome of
             Rejects \<Rightarrow> (Inl StorageFailure, db)
           | Commits \<Rightarrow>
               (Inr (resetData now row),
                db\<lparr>cards := updateCard cid (resetData now) (cards db)\<rparr>)))"

text \<open>
  The scheduling columns \<open>createCard\<close> gives a new card (\<open>easeFactor: DEFAULT_EASE_FACTOR,
  interval: 0, repetitions: 0, nextReviewAt: new Date()\<close>), for the card \<open>cid\<close> of deck
  \<open>did\<close> created at \<open>now\<close>.
\<close>

definition freshCard :: "string \<Rightarrow> string \<Rightarrow> Date \<Rightarrow> Card" where
  "freshCard cid did now =
     \<lparr> card_id = cid, deckId = did, easeFactor = DEFAULT_EASE_FACTOR, interval = 0,
       repetitions = 0, nextReviewAt = now, lastReviewAt = None, createdAt = now \<rparr>"

text \<open>
  A store with one deck \<open>d\<close> of user \<open>u\<close> holding the one card \<open>c\<close>, and the given
  review records.
\<close>

definition oneCardStore :: "Card \<Rightarrow> CardReview list \<Rightarrow> DB" where
  "oneCardStore row rs =
     \<lparr> decks = [\<lparr> deck_id = ''d'', deck_userId = ''u'', parentId = None \<rparr>],
       cards = [row\<lparr> card_id := ''c'', deckId := ''d'' \<rparr>],
       reviews = rs,
       sessions = [] \<rparr>"

section \<open>Selecting the cards of a study session\<close>

text \<open>
  \<open>getSubDeckIds\<close> walks the deck table recursively. The first argument bounds the depth
  of the recursion: the result is \<open>None\<close> when the walk goes deeper. On a table in which
  the deck is its own ancestor the source never returns, and the model is \<open>None\<close> at every
  bound.
\<close>

fun getSubDeckIds :: "nat \<Rightarrow> Deck list \<Rightarrow> string \<Rightarrow> string list option" where
  "getSubDeckIds 0 ds parent = None"
| "getSubDeckIds (Suc fuel) ds parent =
     (let children = filter (\<lambda>d. parentId d = Some parent) ds
      in fold (\<lambda>child acc.
                 case acc of
                   None \<Rightarrow> None
                 | Some ids \<Rightarrow>
                     (case getSubDeckIds fuel ds (deck_id child) of
                        None \<Rightarrow> None
                      | Some subIds \<Rightarrow> Some (ids @ subIds)))
           children (Some (map deck_id children)))"

text \<open>
  \<open>includeSubDecks ? [...(await getSubDeckIds(deckId)), deckId] : [deckId]\<close>
\<close>

definition resolveDeckIds :: "nat \<Rightarrow> DB \<Rightarrow> string \<Rightarrow> bool \<Rightarrow> string list option" where
  "resolveDeckIds fuel db did includeSubDecks =
     (if includeSubDecks
      then map_option (\<lambda>ids. ids @ [did]) (getSubDeckIds fuel (decks db) did)
      else Some [did])"

text \<open>
  The option \<open>take\<close> of \<open>findMany\<close>, applied to the matched rows in the order of
  \<open>orderBy\<close>. The Prisma client counts a non-negative \<open>take\<close> from the beginning of the
  list and a negative one from its end: \<open>take: -n\<close> keeps the last \<open>n\<close> rows.
\<close>

definition prismaTake :: "int \<Rightarrow> 'a list \<Rightarrow> 'a list" where
  "prismaTake n rows =
     (if 0 \<le> n then take (nat n) rows else drop (length rows - nat (- n)) rows)"

text \<open>The rows matched by \<open>where: { deckId: { in: deckIds }, repetitions: 0 }\<close>.\<close>

definition poolNew :: "string list \<Rightarrow> Card list \<Rightarrow> Card list" where
  "poolNew deckIds cs = filter (\<lambda>c. deckId c \<in> set deckIds \<and> Card.repetitions c = 0) cs"

text \<open>
  The rows matched by
  \<open>where: { deckId: { in: deckIds }, nextReviewAt: { lte: now }, repetitions: { gt: 0 } }\<close>.
\<close>

definition poolDue :: "string list \<Rightarrow> Date \<Rightarrow> Card list \<Rightarrow> Card list" where
  "poolDue deckIds endOfToday cs =
     filter (\<lambda>c. deckId c \<in> set deckIds \<and> nextReviewAt c \<le> endOfToday \<and> 0 < Card.repetitions c) cs"

text \<open>
  The two \<open>findMany\<close> queries: \<open>orderBy\<close> sorts the matched rows by the column (rows with
  equal keys stay in table order), \<open>take\<close> keeps some of them. The \<open>limit\<close> is an integer,
  as the route passes it (\<open>Math.min(parseInt(...) || 50, 200)\<close> can be any integer up to
  200 other than 0), and \<open>Math.floor(limit / 3)\<close> is \<open>limit div 3\<close>, which rounds down.
\<close>

definition newCardsQuery :: "string list \<Rightarrow> int \<Rightarrow> Card list \<Rightarrow> Card list" where
  "newCardsQuery deckIds limit cs =
     prismaTake (limit div 3) (sort_key createdAt (poolNew deckIds cs))"

definition dueCardsQuery :: "string list \<Rightarrow> Date \<Rightarrow> int \<Rightarrow> Card list \<Rightarrow> Card list" where
  "dueCardsQuery deckIds endOfToday remainingLimit cs =
     prismaTake remainingLimit (sort_key nextReviewAt (poolDue deckIds endOfToday cs))"

text \<open>
  The loop of \<open>shuffleArray\<close>, for \<open>i\<close> from \<open>length - 1\<close> down to 1. \<open>random k\<close> is the
  value of the \<open>k\<close>-th call of \<open>Math.random()\<close>.
\<close>

fun shuffleLoop :: "(nat \<Rightarrow> real) \<Rightarrow> nat \<Rightarrow> nat \<Rightarrow> 'a list \<Rightarrow> 'a list" where
  "shuffleLoop random k 0 shuffled = shuffled"
| "shuffleLoop random k (Suc i') shuffled =
     (let i = Suc i';
          j = nat \<lfloor>js_mul (random k) (real (i + 1))\<rfloor>
      in shuffleLoop random (Suc k) i' (shuffled[i := shuffled ! j, j := shuffled ! i]))"

definition shuffleArray :: "(nat \<Rightarrow> real) \<Rightarrow> 'a list \<Rightarrow> 'a list" where
  "shuffleArray random array = shuffleLoop random 0 (length array - 1) array"

text \<open>What \<open>Math.random()\<close> can return: a binary64 number from 0 up to, but excluding, 1.\<close>

definition isRandom :: "real \<Rightarrow> bool" where
  "isRandom r = (0 \<le> r \<and> r < 1 \<and> fl r = r)"


text \<open>
  \<open>getDueCards\<close>: \<open>None\<close> when the walk over the sub-decks does not return within the
  bound, else the error thrown or the cards returned.
\<close>

definition getDueCards ::
  "nat \<Rightarrow> (nat \<Rightarrow> real) \<Rightarrow> int \<Rightarrow> Date \<Rightarrow> DB \<Rightarrow> string \<Rightarrow> string \<Rightarrow> int \<Rightarrow> bool
     \<Rightarrow> (error + Card list) option" where
  "getDueCards fuel random tz now db userId did limit includeSubDecks =
     (if \<not> list_ex (\<lambda>d. deck_id d = did \<and> deck_userId d = userId) (decks db)
      then Some (Inl DeckNotFound)
      else
        case resolveDeckIds fuel db did includeSubDecks of
          None \<Rightarrow> None
        | Some deckIds \<Rightarrow>
            let endOfToday = setHours tz 23 59 59 999 now;
                newCards = newCardsQuery deckIds limit (cards db);
                remainingLimit = limit - int (length newCards);
                dueCards = dueCardsQuery deckIds endOfToday remainingLimit (cards db);
                allCards = newCards @ dueCards
            in Some (Inr (shuffleArray random allCards)))"

text \<open>The terms in which the selection is specified.\<close>






section \<open>Facts about binary64 rounding\<close>

lemma ilog2_bounds: "0 < x \<Longrightarrow> 2 powi (ilog2 x) \<le> x \<and> x < 2 powi (ilog2 x + 1)"
proof (induction x rule: ilog2.induct)
  case (1 x)
  show ?case
  proof (cases "x < 1")
    case True
    then have e: "ilog2 x = ilog2 (2 * x) - 1" using 1(3) by (subst ilog2.simps) simp
    have ih: "2 powi (ilog2 (2 * x)) \<le> 2 * x \<and> 2 * x < 2 powi (ilog2 (2 * x) + 1)"
      using 1(1) 1(3) True by simp
    have "(2::real) powi (ilog2 (2 * x)) = 2 powi (ilog2 x) * 2"
      unfolding e by (simp add: power_int_diff)
    moreover have "(2::real) powi (ilog2 (2 * x) + 1) = 2 powi (ilog2 x + 1) * 2"
      unfolding e by (simp add: power_int_add)
    ultimately show ?thesis using ih by simp
  next
    case False
    show ?thesis
    proof (cases "2 \<le> x")
      case True
      then have e: "ilog2 x = ilog2 (x / 2) + 1" using False 1(3) by (subst ilog2.simps) simp
      have ih: "2 powi (ilog2 (x / 2)) \<le> x / 2 \<and> x / 2 < 2 powi (ilog2 (x / 2) + 1)"
        using 1(2) 1(3) True False by simp
      have "(2::real) powi (ilog2 x) = 2 powi (ilog2 (x / 2)) * 2"
        unfolding e by (simp add: power_int_add)
      moreover have "(2::real) powi (ilog2 x + 1) = 2 powi (ilog2 (x / 2) + 1) * 2"
        unfolding e by (simp add: power_int_add)
      ultimately show ?thesis using ih by simp
    next
      case F2: False
      then have "ilog2 x = 0" using False 1(3) by (subst ilog2.simps) simp
      then show ?thesis using False F2 by simp
    qed
  qed
qed

lemma ilog2_unique:
  assumes "2 powi k \<le> x" "x < 2 powi (k + 1)"
  shows "ilog2 x = k"
proof -
  have x: "0 < x" using assms(1) by (smt (verit) zero_less_power_int)
  note b = ilog2_bounds [OF x]
  have "(2::real) powi k < 2 powi (ilog2 x + 1)" using assms(1) b by simp
  then have "k < ilog2 x + 1"
    by (smt (verit) power_int_increasing)
  moreover have "(2::real) powi (ilog2 x) < 2 powi (k + 1)" using assms(2) b by simp
  then have "ilog2 x < k + 1"
    by (smt (verit) power_int_increasing)
  ultimately show ?thesis by simp
qed









lemma fl_zero [simp]: "fl 0 = 0"
  by (simp add: fl_def)



text \<open>How \<open>fl\<close> is evaluated on a positive normal number whose binary exponent is known.\<close>

lemma fl_eval:
  assumes "2 powi k \<le> x" "x < 2 powi (k + 1)" "- 1022 \<le> k"
  shows "fl x = of_int (round_even (x / 2 powi (k - 52))) * 2 powi (k - 52)"
proof -
  have x: "0 < x" using assms(1) by (smt (verit) zero_less_power_int)
  have k: "ilog2 x = k" using assms(1,2) by (rule ilog2_unique)
  have m: "max (k - 52) (- 1074) = k - 52" using assms(3) by simp
  have "fl x = fl_pos x" using x by (simp add: fl_def)
  also have "\<dots> = of_int (round_even (x / 2 powi (k - 52))) * 2 powi (k - 52)"
    unfolding fl_pos_def k m Let_def ..
  finally show ?thesis .
qed

lemma lit_1_3: "js_lit (13 / 10) = 5854679515581645 / 4503599627370496"
  unfolding js_lit_def
  by (subst fl_eval [where k = 0]) (simp_all add: round_even_def Let_def)

lemma lit_0_1: "js_lit (1 / 10) = 3602879701896397 / 36028797018963968"
  unfolding js_lit_def
  by (subst fl_eval [where k = "- 4"]) (simp_all add: round_even_def Let_def)

lemma lit_0_08: "js_lit (8 / 100) = 5764607523034235 / 72057594037927936"
  unfolding js_lit_def
  by (subst fl_eval [where k = "- 4"]) (simp_all add: round_even_def Let_def)

lemma lit_0_02: "js_lit (2 / 100) = 5764607523034235 / 288230376151711744"
  unfolding js_lit_def
  by (subst fl_eval [where k = "- 6"]) (simp_all add: round_even_def Let_def)

lemma lit_2_5: "js_lit (5 / 2) = 5 / 2"
  unfolding js_lit_def
  by (subst fl_eval [where k = 1]) (simp_all add: round_even_def Let_def)


section \<open>The scheduling step: quality clamping and the failure branch\<close>

lemma Math_round_of_int [simp]: "Math_round (of_int n) = n"
  by (simp add: Math_round_def)

lemma clampQuality_range: "0 \<le> clampQuality q \<and> clampQuality q \<le> 5"
  by (simp add: clampQuality_def)

lemma clampQuality_idem [simp]: "clampQuality (of_int (clampQuality q)) = clampQuality q"
  by (simp add: clampQuality_def)

text \<open>
  C2. If the quality, rounded and then clamped into 0..5, is below 3, the step returns
  0 repetitions and an interval of 1 day, whatever the prior repetitions and interval.
  Every real quality is accepted: the step works on \<open>max 0 (min 5 (Math.round quality))\<close>,
  which lies in 0..5, so an out-of-range quality gives the result of the clamped one.
\<close>

theorem calculateSM2_failure_resets:
  "(clampQuality (quality input) < 3 \<longrightarrow>
      SM2Result.repetitions (calculateSM2 tz now input) = 0 \<and>
      SM2Result.interval (calculateSM2 tz now input) = 1) \<and>
   clampQuality (quality input) = max 0 (min 5 (Math_round (quality input))) \<and>
   0 \<le> clampQuality (quality input) \<and> clampQuality (quality input) \<le> 5 \<and>
   calculateSM2 tz now input =
     calculateSM2 tz now (input\<lparr>quality := of_int (clampQuality (quality input))\<rparr>)"
  by (simp add: calculateSM2_def Let_def clampQuality_def)

theorem calculateSM2_failure_resets_witness:
  "clampQuality (- 7 / 2) < 3 \<and>
   SM2Result.repetitions (calculateSM2 32400000 0
      \<lparr>quality = - 7 / 2, repetitions = 4, easeFactor = 5 / 2, interval = 30\<rparr>) = 0 \<and>
   SM2Result.interval (calculateSM2 32400000 0
      \<lparr>quality = - 7 / 2, repetitions = 4, easeFactor = 5 / 2, interval = 30\<rparr>) = 1"
proof -
  let ?i = "\<lparr>quality = - 7 / 2, repetitions = 4, easeFactor = 5 / 2, interval = 30\<rparr>"
  have h: "clampQuality (quality ?i) < 3"
    by (simp add: clampQuality_def Math_round_def)
  have "SM2Result.repetitions (calculateSM2 32400000 0 ?i) = 0 \<and>
        SM2Result.interval (calculateSM2 32400000 0 ?i) = 1"
    using calculateSM2_failure_resets [where input = ?i and now = 0 and tz = 32400000] h by blast
  moreover have "clampQuality (- 7 / 2) < 3" using h by simp
  ultimately show ?thesis by blast
qed

section \<open>The scheduling step: ease factor and intervals\<close>



lemma MIN_EASE_FACTOR_val: "MIN_EASE_FACTOR = 5854679515581645 / 4503599627370496"
  by (simp add: MIN_EASE_FACTOR_def lit_1_3)








lemma fl_lit_0_1: "fl (3602879701896397 / 36028797018963968) = 3602879701896397 / 36028797018963968"
  by (subst fl_eval [where k = "- 4"]) (simp_all add: round_even_def Let_def)

lemma newEaseFactor_5:
  "newEaseFactor 5 ef = max MIN_EASE_FACTOR (fl (ef + 3602879701896397 / 36028797018963968))"
  unfolding newEaseFactor_def js_add_def js_sub_def js_mul_def lit_0_1
  by (simp add: fl_lit_0_1)

lemma step1_ef: "fl (5 / 2 + 3602879701896397 / 36028797018963968) = 5854679515581645 / 2251799813685248"
  by (subst fl_eval [where k = 1]) (simp_all add: round_even_def Let_def)



lemma newEaseFactor_step1: "newEaseFactor 5 DEFAULT_EASE_FACTOR = 5854679515581645 / 2251799813685248"
  unfolding newEaseFactor_5 DEFAULT_EASE_FACTOR_def lit_2_5 step1_ef MIN_EASE_FACTOR_val by simp



lemma fl_260: "fl (5854679515581645 / 2251799813685248 * 100) = 260"
  by (subst fl_eval [where k = 8]) (simp_all add: round_even_def Let_def)

lemma fl_2_6: "fl (260 / 100) = 5854679515581645 / 2251799813685248"
  by (subst fl_eval [where k = 1]) (simp_all add: round_even_def Let_def)



lemma Math_round_260: "Math_round 260 = 260" and Math_round_270: "Math_round 270 = 270"
  by (simp_all add: Math_round_def)

lemma of_int_260: "real_of_int 260 = 260" and of_int_270: "real_of_int 270 = 270"
  by simp_all

lemma round2_step1: "js_div (of_int (Math_round (js_mul (5854679515581645 / 2251799813685248) 100))) 100
    = 5854679515581645 / 2251799813685248"
  unfolding js_mul_def js_div_def fl_260 Math_round_260 of_int_260 fl_2_6 ..




lemma clampQuality_5: "clampQuality 5 = 5"
  by (simp add: clampQuality_def Math_round_def)

lemma calculateSM2_success:
  assumes "3 \<le> clampQuality q"
  shows "calculateSM2 tz t \<lparr>quality = q, repetitions = r, easeFactor = e, interval = i\<rparr> =
    \<lparr>repetitions = Suc r,
     easeFactor = js_div (of_int (Math_round (js_mul (newEaseFactor (clampQuality q) e) 100))) 100,
     interval = (if r = 0 then 1 else if r = 1 then 6
                 else Math_round (js_mul (of_int i) (newEaseFactor (clampQuality q) e))),
     nextReviewDate = setHours tz 0 0 0 0 (addDays t (if r = 0 then 1 else if r = 1 then 6
                 else Math_round (js_mul (of_int i) (newEaseFactor (clampQuality q) e))))\<rparr>"
  using assms by (simp add: calculateSM2_def Let_def)

lemma review1:
  "calculateSM2 tz t \<lparr>quality = 5, repetitions = 0, easeFactor = DEFAULT_EASE_FACTOR, interval = 0\<rparr> =
     \<lparr>repetitions = 1, easeFactor = 5854679515581645 / 2251799813685248, interval = 1,
      nextReviewDate = setHours tz 0 0 0 0 (addDays t 1)\<rparr>"
  by (subst calculateSM2_success)
     (simp_all only: clampQuality_5 newEaseFactor_step1 round2_step1, simp_all)














section \<open>Due test\<close>



section \<open>Retention\<close>

lemma fl_23_40: "fl (23 / 40) = 2589569785738035 / 4503599627370496"
  by (subst fl_eval [where k = "- 1"]) (simp_all add: round_even_def Let_def)

lemma fl_23_40_100: "fl (2589569785738035 / 4503599627370496 * 100) = 8092405580431359 / 140737488355328"
  by (subst fl_eval [where k = 5]) (simp_all add: round_even_def Let_def)

lemma averageRetention_23_40: "averageRetention 23 40 = 57"
proof -
  have m: "js_mul (js_div 23 40) 100 = 8092405580431359 / 140737488355328"
    unfolding js_mul_def js_div_def fl_23_40 fl_23_40_100 ..
  have "Math_round (js_mul (js_div 23 40) 100) = 57"
    unfolding m by (simp add: Math_round_def)
  then show ?thesis by (simp add: averageRetention_def)
qed

lemma fl_6_10: "fl (6 / 10) = 5404319552844595 / 9007199254740992"
  by (subst fl_eval [where k = "- 1"]) (simp_all add: round_even_def Let_def)

lemma fl_6_10_100: "fl (5404319552844595 / 9007199254740992 * 100) = 60"
  by (subst fl_eval [where k = 5]) (simp_all add: round_even_def Let_def)

lemma averageRetention_6_10: "averageRetention 6 10 = 60"
proof -
  have "js_mul (js_div 6 10) 100 = 60"
    unfolding js_mul_def js_div_def fl_6_10 fl_6_10_100 ..
  then show ?thesis by (simp add: averageRetention_def Math_round_def)
qed

lemma userReviews_historyOf: "userReviews (historyOf qs) ''u'' = reviews (historyOf qs)"
  by (simp add: userReviews_def historyOf_def)

lemma retention_historyOf:
  "getUserStats_averageRetention (historyOf qs) ''u'' =
     averageRetention (length (filter (\<lambda>q. 3 \<le> q) qs)) (length qs)"
proof -
  have "length (filter (\<lambda>r. 3 \<le> CardReview.quality r) (reviews (historyOf qs))) =
        length (filter (\<lambda>q. 3 \<le> q) qs)"
    by (simp add: historyOf_def filter_map comp_def)
  then show ?thesis
    by (simp add: getUserStats_averageRetention_def userReviews_historyOf Let_def)
       (simp add: historyOf_def)
qed

text \<open>
  The retention of an empty history is 0, and the ten qualities 0,1,2,3,4,5,3,2,5,4 give 60.
\<close>

lemma retention_examples:
  "getUserStats_averageRetention (historyOf []) ''u'' = 0 \<and>
   getUserStats_averageRetention (historyOf [0, 1, 2, 3, 4, 5, 3, 2, 5, 4]) ''u'' = 60"
  unfolding retention_historyOf using averageRetention_6_10
  by (simp add: averageRetention_def)

text \<open>
  C8. The claim: \<open>averageRetention = round(100 * successfulReviews / totalReviews)\<close>.
  The code computes \<open>Math.round((successfulReviews / totalReviews) * 100)\<close> in binary64
  arithmetic. With 23 successful reviews out of 40 the quotient is the double
  0.57499999999999995559, its product with 100 the double 57.49999999999999289, and the
  result 57, whereas \<open>100 * 23 / 40 = 57.5\<close> rounds to 58.
\<close>

theorem retention_23_of_40:
  "getUserStats_averageRetention (historyOf (replicate 23 5 @ replicate 17 0)) ''u'' = 57 \<and>
   Math_round (100 * 23 / 40) = 58"
proof -
  have "length (filter (\<lambda>q. 3 \<le> q) (replicate 23 5 @ replicate 17 (0::real))) = 23"
    by simp
  then have "getUserStats_averageRetention (historyOf (replicate 23 5 @ replicate 17 0)) ''u'' = 57"
    unfolding retention_historyOf using averageRetention_23_40 by simp
  moreover have "Math_round (100 * 23 / 40) = 58" by (simp add: Math_round_def)
  ultimately show ?thesis by simp
qed

section \<open>Streaks\<close>

lemma diffDays_eq [simp]: "diffDays a b = a - b"
proof -
  have "a * 86400000 - b * 86400000 = (a - b) * 86400000" by (simp add: algebra_simps)
  then show ?thesis by (simp add: diffDays_def dateTime_def msPerDay_def)
qed

lemma currentLoop_run_len: "currentLoop (a # ds) c = c + run_len (a # ds) - 1"
  by (induction ds arbitrary: a c) simp_all

lemma run_len_pos: "0 < run_len (a # ds)"
  by (cases ds) simp_all

lemma longestLoop_best_run:
  "1 \<le> t \<Longrightarrow>
   (case longestLoop (a # ds) (l, t) of (l', t') \<Rightarrow> max l' t') =
     max l (max (t + run_len (a # ds) - 1) (best_run ds))"
proof (induction ds arbitrary: a l t)
  case Nil
  then show ?case by simp
next
  case (Cons b rest)
  show ?case
  proof (cases "a - b = 1")
    case True
    have "(case longestLoop (b # rest) (l, t + 1) of (l', t') \<Rightarrow> max l' t') =
        max l (max (t + 1 + run_len (b # rest) - 1) (best_run rest))"
      by (rule Cons.IH) simp
    then show ?thesis using True Cons.prems run_len_pos [of b rest] by simp
  next
    case False
    have "(case longestLoop (b # rest) (max l t, 1) of (l', t') \<Rightarrow> max l' t') =
        max (max l t) (max (1 + run_len (b # rest) - 1) (best_run rest))"
      by (rule Cons.IH) simp
    then show ?thesis using False Cons.prems by (simp add: max.assoc)
  qed
qed

lemma consecutiveDays_iff: "consecutiveDays S m k \<longleftrightarrow> (\<forall>i<k. m - int i \<in> S)"
proof
  assume c: "consecutiveDays S m k"
  show "\<forall>i<k. m - int i \<in> S"
  proof (intro allI impI)
    fix i assume "i < k"
    then have "m - int i \<in> {m - int k <.. m}" by simp
    then show "m - int i \<in> S" using c by (auto simp add: consecutiveDays_def)
  qed
next
  assume a: "\<forall>i<k. m - int i \<in> S"
  show "consecutiveDays S m k"
    unfolding consecutiveDays_def
  proof
    fix x assume x: "x \<in> {m - int k <.. m}"
    then have "nat (m - x) < k" by auto
    then have "m - int (nat (m - x)) \<in> S" using a by blast
    then show "x \<in> S" using x by simp
  qed
qed

lemma run_len_in: "i < run_len (a # ds) \<Longrightarrow> a - int i \<in> set (a # ds)"
proof (induction ds arbitrary: a i)
  case Nil
  then show ?case by simp
next
  case (Cons b rest)
  show ?case
  proof (cases "a - b = 1")
    case True
    show ?thesis
    proof (cases i)
      case 0
      then show ?thesis by simp
    next
      case (Suc j)
      then have "j < run_len (b # rest)" using Cons.prems True by simp
      then have "b - int j \<in> set (b # rest)" by (rule Cons.IH)
      moreover have "a - int i = b - int j" using True Suc by simp
      ultimately show ?thesis by simp
    qed
  next
    case False
    then have "i = 0" using Cons.prems by simp
    then show ?thesis by simp
  qed
qed

lemma run_len_stop:
  "sorted_wrt (>) (a # ds) \<Longrightarrow> a - int (run_len (a # ds)) \<notin> set (a # ds)"
proof (induction ds arbitrary: a)
  case Nil
  then show ?case by simp
next
  case (Cons b rest)
  have ab: "b < a" and rest: "\<forall>x\<in>set rest. x < b" and s: "sorted_wrt (>) (b # rest)"
    using Cons.prems by auto
  show ?case
  proof (cases "a - b = 1")
    case True
    have "b - int (run_len (b # rest)) \<notin> set (b # rest)" using s by (rule Cons.IH)
    moreover have "a - int (run_len (a # b # rest)) = b - int (run_len (b # rest))"
      using True by simp
    moreover have "b - int (run_len (b # rest)) \<noteq> a" using ab by simp
    ultimately show ?thesis by simp
  next
    case False
    then have "run_len (a # b # rest) = 1" by simp
    moreover have "a - 1 \<noteq> b" using False by simp
    moreover have "a - 1 \<notin> set rest" using rest ab by force
    ultimately show ?thesis by simp
  qed
qed

lemma run_len_consecutive:
  assumes "sorted_wrt (>) (a # ds)"
  shows "consecutiveDays (set (a # ds)) a (run_len (a # ds)) \<and>
         \<not> consecutiveDays (set (a # ds)) a (run_len (a # ds) + 1)"
proof -
  have "\<forall>i<run_len (a # ds). a - int i \<in> set (a # ds)"
    using run_len_in by blast
  moreover have "\<not> (\<forall>i<run_len (a # ds) + 1. a - int i \<in> set (a # ds))"
    using run_len_stop [OF assms] by (metis less_add_one)
  ultimately show ?thesis unfolding consecutiveDays_iff by blast
qed

lemma best_run_exists: "\<exists>m. consecutiveDays (set ds) m (best_run ds)"
proof (induction ds)
  case Nil
  then show ?case by (simp add: consecutiveDays_def)
next
  case (Cons a ds)
  show ?case
  proof (cases "best_run ds \<le> run_len (a # ds)")
    case True
    have "\<forall>i<run_len (a # ds). a - int i \<in> set (a # ds)"
      using run_len_in by blast
    then have "consecutiveDays (set (a # ds)) a (run_len (a # ds))"
      unfolding consecutiveDays_iff .
    then show ?thesis using True by (auto simp add: max_def)
  next
    case False
    obtain m where "consecutiveDays (set ds) m (best_run ds)" using Cons by blast
    then have "consecutiveDays (set (a # ds)) m (best_run ds)"
      by (auto simp add: consecutiveDays_def)
    then show ?thesis using False by (auto simp add: max_def)
  qed
qed

lemma best_run_upper:
  "sorted_wrt (>) ds \<Longrightarrow> consecutiveDays (set ds) m k \<Longrightarrow> k \<le> best_run ds"
proof (induction ds)
  case Nil
  then have "k = 0" unfolding consecutiveDays_iff by (cases k) auto
  then show ?case by simp
next
  case (Cons a ds)
  have s: "sorted_wrt (>) ds" and lt: "\<forall>x\<in>set ds. x < a" using Cons.prems(1) by auto
  have all: "\<forall>i<k. m - int i \<in> set (a # ds)"
    using Cons.prems(2) unfolding consecutiveDays_iff .
  show ?case
  proof (cases "k = 0")
    case True
    then show ?thesis by simp
  next
    case False
    then have m: "m \<in> set (a # ds)" using all by force
    show ?thesis
    proof (cases "m = a")
      case True
      have "\<not> run_len (a # ds) < k"
      proof
        assume "run_len (a # ds) < k"
        then have "a - int (run_len (a # ds)) \<in> set (a # ds)" using all True by blast
        then show False using run_len_stop [OF Cons.prems(1)] by blast
      qed
      then show ?thesis by simp
    next
      case False
      then have ma: "m < a" using m lt by auto
      have "\<forall>i<k. m - int i \<in> set ds"
      proof (intro allI impI)
        fix i assume "i < k"
        then have "m - int i \<in> set (a # ds)" using all by blast
        moreover have "m - int i \<noteq> a" using ma by simp
        ultimately show "m - int i \<in> set ds" by simp
      qed
      then have "consecutiveDays (set ds) m k" unfolding consecutiveDays_iff .
      then have "k \<le> best_run ds" using s Cons.IH by blast
      then show ?thesis by simp
    qed
  qed
qed

lemma studyDays_list:
  "studyDays db userId =
     set (map (\<lambda>s. isoDate (startedAt s)) (filter (\<lambda>s. session_userId s = userId) (sessions db)))"
  by (auto simp add: studyDays_def)

lemma desc_head_Max:
  assumes "sorted_wrt (>) (a # ds)"
  shows "Max (set (a # ds)) = a"
proof (rule Max_eqI)
  show "finite (set (a # ds))" by simp
  show "a \<in> set (a # ds)" by simp
  fix y assume "y \<in> set (a # ds)"
  then show "y \<le> a" using assms by auto
qed

lemma desc_rev_sort_remdups: "sorted_wrt (>) (rev (sort (remdups (xs :: int list))))"
proof -
  have "sorted_wrt (<) (sort (remdups xs))"
    unfolding strict_sorted_iff by simp
  then show ?thesis by (simp add: sorted_wrt_rev)
qed

text \<open>The two streaks, in terms of the descending list of distinct study dates.\<close>

lemma calculateStreaks_lists:
  "calculateStreaks now db userId =
     (let ds = rev (sort (remdups (map (\<lambda>s. isoDate (startedAt s))
                 (filter (\<lambda>s. session_userId s = userId) (sessions db)))))
      in if ds = [] then (0, 0)
         else (if hd ds = isoDate now \<or> hd ds = isoDate now - 1 then run_len ds else 0,
               best_run ds))"
proof -
  define sess where
    "sess = rev (sort_key startedAt (filter (\<lambda>s. session_userId s = userId) (sessions db)))"
  define ds where "ds = rev (sort (remdups (map (\<lambda>s. isoDate (startedAt s)) sess)))"
  define ds' where "ds' = rev (sort (remdups (map (\<lambda>s. isoDate (startedAt s))
                 (filter (\<lambda>s. session_userId s = userId) (sessions db)))))"
  have "set (remdups (map (\<lambda>s. isoDate (startedAt s)) sess)) =
        set (remdups (map (\<lambda>s. isoDate (startedAt s))
                 (filter (\<lambda>s. session_userId s = userId) (sessions db))))"
    by (simp add: sess_def)
  then have "sort (remdups (map (\<lambda>s. isoDate (startedAt s)) sess)) =
        sort (remdups (map (\<lambda>s. isoDate (startedAt s))
                 (filter (\<lambda>s. session_userId s = userId) (sessions db))))"
    by (intro sorted_distinct_set_unique) simp_all
  then have dd: "ds = ds'" by (simp add: ds_def ds'_def)
  have "set ds = {} \<longleftrightarrow> sess = []" by (simp add: ds_def)
  then have empty: "ds = [] \<longleftrightarrow> length sess = 0" by simp
  have y: "isoDate (now - 86400000) = isoDate now - 1"
    by (simp add: isoDate_def msPerDay_def)
  have unfold: "calculateStreaks now db userId =
     (if length sess = 0 then (0, 0)
      else if length ds = 0 then (0, 0)
      else
        let currentStreak =
              (if ds ! 0 = isoDate now \<or> ds ! 0 = isoDate (now - 86400000)
               then currentLoop ds 1 else 0)
        in (currentStreak,
            max (case longestLoop ds (0, 1) of (l, t) \<Rightarrow> max l t) currentStreak))"
    unfolding calculateStreaks_def sess_def [symmetric] Let_def ds_def [symmetric]
    by (simp split: prod.split)
  show ?thesis
  proof (cases "ds = []")
    case True
    then show ?thesis using empty unfold dd by (simp add: ds'_def Let_def)
  next
    case False
    then obtain a rest where ar: "ds = a # rest" by (cases ds) auto
    have cur: "currentLoop ds (Suc 0) = run_len ds"
      unfolding ar by (simp add: currentLoop_run_len)
    have lon: "(case longestLoop ds (0, Suc 0) of (l, t) \<Rightarrow> max l t) = best_run ds"
      unfolding ar using longestLoop_best_run [of 1 a rest 0] by simp
    have le: "run_len ds \<le> best_run ds" unfolding ar by simp
    have "calculateStreaks now db userId =
        (if hd ds = isoDate now \<or> hd ds = isoDate now - 1 then run_len ds else 0, best_run ds)"
      unfolding unfold using False empty le
      by (simp add: cur lon y Let_def hd_conv_nth max_def)
    then show ?thesis using False dd by (simp add: ds'_def Let_def)
  qed
qed

lemma isoDate_shift: "isoDate (now - k * msPerDay) = isoDate now - k"
  by (simp add: isoDate_def msPerDay_def)

text \<open>
  C5. The streaks depend on the store only through the start dates of the user's
  sessions (review records play no part). With no session both are 0. Otherwise, with
  \<open>recent\<close> the most recent study date: the current streak is 0 unless \<open>recent\<close> is
  today or yesterday, and then it is the number of consecutive study dates that end with
  \<open>recent\<close>; the longest streak is the greatest number of consecutive study dates anywhere.
  Sessions started now, one day ago and two days ago give a current streak of 3; sessions
  started only five, six and seven days ago give a current streak of 0 and a longest
  streak of 3.
\<close>

theorem calculateStreaks_spec:
  "calculateStreaks now (db\<lparr>reviews := rs\<rparr>) userId = calculateStreaks now db userId \<and>
   (studyDays db userId = {} \<longrightarrow> calculateStreaks now db userId = (0, 0)) \<and>
   (studyDays db userId \<noteq> {} \<longrightarrow>
      (let S = studyDays db userId;
           recent = Max S;
           currentStreak = fst (calculateStreaks now db userId);
           longestStreak = snd (calculateStreaks now db userId)
       in (recent \<noteq> isoDate now \<and> recent \<noteq> isoDate now - 1 \<longrightarrow> currentStreak = 0) \<and>
          (recent = isoDate now \<or> recent = isoDate now - 1 \<longrightarrow>
             consecutiveDays S recent currentStreak \<and>
             \<not> consecutiveDays S recent (currentStreak + 1)) \<and>
          (\<exists>m. consecutiveDays S m longestStreak) \<and>
          (\<forall>m. \<not> consecutiveDays S m (longestStreak + 1)))) \<and>
   fst (calculateStreaks now (sessionsAt [now, now - msPerDay, now - 2 * msPerDay]) ''u'') = 3 \<and>
   calculateStreaks now
     (sessionsAt [now - 5 * msPerDay, now - 6 * msPerDay, now - 7 * msPerDay]) ''u'' = (0, 3)"
proof (intro conjI impI)
  show "calculateStreaks now (db\<lparr>reviews := rs\<rparr>) userId = calculateStreaks now db userId"
    by (simp add: calculateStreaks_def)
next
  assume "studyDays db userId = {}"
  then show "calculateStreaks now db userId = (0, 0)"
    by (simp add: calculateStreaks_lists studyDays_list Let_def)
next
  assume ne: "studyDays db userId \<noteq> {}"
  define ds where "ds = rev (sort (remdups (map (\<lambda>s. isoDate (startedAt s))
                 (filter (\<lambda>s. session_userId s = userId) (sessions db)))))"
  have S: "studyDays db userId = set ds" by (simp add: ds_def studyDays_list)
  have desc: "sorted_wrt (>) ds" unfolding ds_def by (rule desc_rev_sort_remdups)
  obtain a rest where ar: "ds = a # rest" using ne S by (cases ds) auto
  have mx: "Max (set ds) = a" using desc unfolding ar by (rule desc_head_Max)
  have res: "calculateStreaks now db userId =
      (if a = isoDate now \<or> a = isoDate now - 1 then run_len ds else 0, best_run ds)"
    using ar by (simp add: calculateStreaks_lists ds_def [symmetric] Let_def)
  have run: "consecutiveDays (set ds) a (run_len ds) \<and>
             \<not> consecutiveDays (set ds) a (run_len ds + 1)"
    using desc unfolding ar by (rule run_len_consecutive)
  have ex: "\<exists>m. consecutiveDays (set ds) m (best_run ds)" by (rule best_run_exists)
  have up: "\<not> consecutiveDays (set ds) m (best_run ds + 1)" for m
    using best_run_upper [OF desc, of m "best_run ds + 1"] by auto
  show "let S = studyDays db userId;
           recent = Max S;
           currentStreak = fst (calculateStreaks now db userId);
           longestStreak = snd (calculateStreaks now db userId)
       in (recent \<noteq> isoDate now \<and> recent \<noteq> isoDate now - 1 \<longrightarrow> currentStreak = 0) \<and>
          (recent = isoDate now \<or> recent = isoDate now - 1 \<longrightarrow>
             consecutiveDays S recent currentStreak \<and>
             \<not> consecutiveDays S recent (currentStreak + 1)) \<and>
          (\<exists>m. consecutiveDays S m longestStreak) \<and>
          (\<forall>m. \<not> consecutiveDays S m (longestStreak + 1))"
    unfolding Let_def S mx res using run ex up by auto
next
  have "rev (sort (remdups [isoDate now, isoDate now - 1, isoDate now - 2])) =
        [isoDate now, isoDate now - 1, isoDate now - 2]"
    by simp
  then show "fst (calculateStreaks now (sessionsAt [now, now - msPerDay, now - 2 * msPerDay]) ''u'') = 3"
    using isoDate_shift [of now 1] isoDate_shift [of now 2]
    by (simp add: calculateStreaks_lists sessionsAt_def Let_def)
next
  have "rev (sort (remdups [isoDate now - 5, isoDate now - 6, isoDate now - 7])) =
        [isoDate now - 5, isoDate now - 6, isoDate now - 7]"
    by simp
  then show "calculateStreaks now
     (sessionsAt [now - 5 * msPerDay, now - 6 * msPerDay, now - 7 * msPerDay]) ''u'' = (0, 3)"
    using isoDate_shift [of now 5] isoDate_shift [of now 6] isoDate_shift [of now 7]
    by (simp add: calculateStreaks_lists sessionsAt_def Let_def)
qed

theorem calculateStreaks_spec_witness:
  "studyDays (sessionsAt [864000100, 777600000, 691200005, 432000000]) ''u'' \<noteq> {} \<and>
   Max (studyDays (sessionsAt [864000100, 777600000, 691200005, 432000000]) ''u'') =
     isoDate 864005000 \<and>
   calculateStreaks 864005000
     (sessionsAt [864000100, 777600000, 691200005, 432000000]) ''u'' = (3, 3) \<and>
   consecutiveDays (studyDays (sessionsAt [864000100, 777600000, 691200005, 432000000]) ''u'')
     10 3 \<and>
   \<not> consecutiveDays (studyDays (sessionsAt [864000100, 777600000, 691200005, 432000000]) ''u'')
     10 4"
proof -
  let ?db = "sessionsAt [864000100, 777600000, 691200005, 432000000]"
  have S: "studyDays ?db ''u'' = {10, 9, 8, 5}"
    by (simp add: studyDays_list sessionsAt_def isoDate_def msPerDay_def)
  have ne: "studyDays ?db ''u'' \<noteq> {}" unfolding S by simp
  have mx: "Max (studyDays ?db ''u'') = 10" unfolding S by simp
  have today: "isoDate 864005000 = 10" by (simp add: isoDate_def msPerDay_def)
  have "rev (sort (remdups [10, 9, 8, 5 :: int])) = [10, 9, 8, 5]" by simp
  then have res: "calculateStreaks 864005000 ?db ''u'' = (3, 3)"
    by (simp add: calculateStreaks_lists sessionsAt_def isoDate_def msPerDay_def Let_def)
  have "consecutiveDays (studyDays ?db ''u'') 10 3 \<and>
        \<not> consecutiveDays (studyDays ?db ''u'') 10 (3 + 1)"
    using calculateStreaks_spec [where now = 864005000 and db = ?db and userId = "''u''"] ne
    unfolding Let_def mx res today by simp
  then show ?thesis using ne mx res today by simp
qed

section \<open>Reviewing a card\<close>

text \<open>
  The claim C6 fails when the update of the card is rejected after the review record was
  created: the operation fails, the record stays and the card is as before.
\<close>

theorem reviewCard_partial_write:
  "fst (reviewCard Commits Rejects 32400000 0 ''u'' ''c'' \<lparr>ReviewCardInput.quality = 4, sessionId = ''s''\<rparr>
         (oneCardStore (freshCard ''c'' ''d'' 0) [])) = Inl StorageFailure \<and>
   reviews (oneCardStore (freshCard ''c'' ''d'' 0) []) = [] \<and>
   length (reviews (snd (reviewCard Commits Rejects 32400000 0 ''u'' ''c'' \<lparr>ReviewCardInput.quality = 4, sessionId = ''s''\<rparr>
         (oneCardStore (freshCard ''c'' ''d'' 0) [])))) = 1 \<and>
   cards (snd (reviewCard Commits Rejects 32400000 0 ''u'' ''c'' \<lparr>ReviewCardInput.quality = 4, sessionId = ''s''\<rparr>
         (oneCardStore (freshCard ''c'' ''d'' 0) []))) =
     cards (oneCardStore (freshCard ''c'' ''d'' 0) [])"
  by (simp add: reviewCard_def findCard_def oneCardStore_def freshCard_def Let_def)

text \<open>
  C6, amended. \<open>reviewCard\<close> issues its two writes one after the other, outside any
  transaction: first the creation of the review record, then the update of the card.
  When it reports success both are committed: the record is appended to the review
  records and the card carries the new scheduling state. When the card is not found, or
  the creation of the record is rejected, it fails and the store is unchanged. When the
  update of the card is rejected after the record was created, it fails, the record stays
  in the store and the cards are unchanged. Decks and sessions are never written.
\<close>

theorem reviewCard_writes:
  "(findCard db userId cid = None \<longrightarrow>
      reviewCard createOutcome updateOutcome tz now userId cid inp db = (Inl CardNotFound, db)) \<and>
   (\<forall>row. findCard db userId cid = Some row \<longrightarrow>
      (let sm2Result = calculateSM2 tz now (sm2InputOf (ReviewCardInput.quality inp) row);
           record = reviewRecord now cid inp row sm2Result
       in reviewCard Rejects updateOutcome tz now userId cid inp db = (Inl StorageFailure, db) \<and>
          reviewCard Commits Rejects tz now userId cid inp db =
            (Inl StorageFailure, db\<lparr>reviews := reviews db @ [record]\<rparr>) \<and>
          reviewCard Commits Commits tz now userId cid inp db =
            (Inr (scheduled now sm2Result row),
             db\<lparr>reviews := reviews db @ [record],
                cards := updateCard cid (scheduled now sm2Result) (cards db)\<rparr>))) \<and>
   (\<forall>row'. fst (reviewCard createOutcome updateOutcome tz now userId cid inp db) = Inr row' \<longrightarrow>
      (\<exists>row. findCard db userId cid = Some row \<and>
         reviews (snd (reviewCard createOutcome updateOutcome tz now userId cid inp db)) =
           reviews db @ [reviewRecord now cid inp row
              (calculateSM2 tz now (sm2InputOf (ReviewCardInput.quality inp) row))] \<and>
         cards (snd (reviewCard createOutcome updateOutcome tz now userId cid inp db)) =
           updateCard cid
             (scheduled now (calculateSM2 tz now (sm2InputOf (ReviewCardInput.quality inp) row)))
             (cards db))) \<and>
   decks (snd (reviewCard createOutcome updateOutcome tz now userId cid inp db)) = decks db \<and>
   sessions (snd (reviewCard createOutcome updateOutcome tz now userId cid inp db)) = sessions db"
  by (cases createOutcome; cases updateOutcome)
     (auto simp add: reviewCard_def Let_def split: option.splits)

theorem reviewCard_writes_witness:
  "findCard (oneCardStore (freshCard ''c'' ''d'' 0) []) ''u'' ''c'' =
     Some (freshCard ''c'' ''d'' 0) \<and>
   reviewCard Commits Commits 32400000 0 ''u'' ''c'' \<lparr>ReviewCardInput.quality = 4, sessionId = ''s''\<rparr>
       (oneCardStore (freshCard ''c'' ''d'' 0) []) =
     (Inr (scheduled 0 (calculateSM2 32400000 0 (sm2InputOf 4 (freshCard ''c'' ''d'' 0)))
            (freshCard ''c'' ''d'' 0)),
      (oneCardStore (freshCard ''c'' ''d'' 0) [])
        \<lparr>reviews := [reviewRecord 0 ''c'' \<lparr>ReviewCardInput.quality = 4, sessionId = ''s''\<rparr>
                       (freshCard ''c'' ''d'' 0)
                       (calculateSM2 32400000 0 (sm2InputOf 4 (freshCard ''c'' ''d'' 0)))],
         cards := [scheduled 0 (calculateSM2 32400000 0 (sm2InputOf 4 (freshCard ''c'' ''d'' 0)))
                     (freshCard ''c'' ''d'' 0)]\<rparr>) \<and>
   reviewCard Rejects Commits 32400000 0 ''u'' ''c'' \<lparr>ReviewCardInput.quality = 4, sessionId = ''s''\<rparr>
       (oneCardStore (freshCard ''c'' ''d'' 0) []) =
     (Inl StorageFailure, oneCardStore (freshCard ''c'' ''d'' 0) [])"
proof -
  let ?db = "oneCardStore (freshCard ''c'' ''d'' 0) []"
  let ?inp = "\<lparr>ReviewCardInput.quality = 4, sessionId = ''s''\<rparr>"
  have f: "findCard ?db ''u'' ''c'' = Some (freshCard ''c'' ''d'' 0)"
    by (simp add: findCard_def oneCardStore_def freshCard_def)
  have c: "cards ?db = [freshCard ''c'' ''d'' 0]" "reviews ?db = []"
    by (simp_all add: oneCardStore_def freshCard_def)
  have u: "updateCard ''c'' g [freshCard ''c'' ''d'' 0] = [g (freshCard ''c'' ''d'' 0)]" for g
    by (simp add: updateCard_def freshCard_def)
  note t = reviewCard_writes [where db = ?db and userId = "''u''" and cid = "''c''"
      and now = 0 and tz = 32400000 and inp = ?inp and createOutcome = Commits
      and updateOutcome = Commits,
      THEN conjunct2, THEN conjunct1, rule_format, OF f]
  show ?thesis using t f unfolding Let_def c u by simp
qed

section \<open>Resetting a card\<close>

lemma find_map_preserved:
  assumes "\<And>x. P (g x) = P x"
  shows "find P (map g xs) = map_option g (find P xs)"
  using assms by (induction xs) simp_all

lemma findCard_Some_id: "findCard db userId cid = Some row \<Longrightarrow> card_id row = cid"
  by (auto simp add: findCard_def find_Some_iff)

lemma findCard_after_update:
  assumes "\<And>c. card_id (f c) = card_id c" "\<And>c. deckId (f c) = deckId c"
    and "findCard db userId cid = Some row"
  shows "findCard (db\<lparr>cards := updateCard cid f (cards db)\<rparr>) userId cid = Some (f row)"
proof -
  let ?P = "\<lambda>c. card_id c = cid \<and>
                list_ex (\<lambda>d. deck_id d = deckId c \<and> deck_userId d = userId) (decks db)"
  let ?g = "\<lambda>c. if card_id c = cid then f c else c"
  have "find ?P (map ?g (cards db)) = map_option ?g (find ?P (cards db))"
    by (rule find_map_preserved) (simp add: assms(1,2))
  moreover have "find ?P (cards db) = Some row" using assms(3) by (simp add: findCard_def)
  moreover have "card_id row = cid" using assms(3) by (rule findCard_Some_id)
  ultimately show ?thesis by (simp add: findCard_def updateCard_def)
qed

lemma sm2_after_reset:
  "calculateSM2 tz t (sm2InputOf 5 (resetData now row)) =
     \<lparr>repetitions = 1, easeFactor = 5854679515581645 / 2251799813685248, interval = 1,
      nextReviewDate = setHours tz 0 0 0 0 (addDays t 1)\<rparr>"
  using review1 [of tz t] by (simp add: sm2InputOf_def resetData_def)

lemma sm2_fresh:
  "calculateSM2 tz t (sm2InputOf 5 (freshCard cid did t0)) =
     \<lparr>repetitions = 1, easeFactor = 5854679515581645 / 2251799813685248, interval = 1,
      nextReviewDate = setHours tz 0 0 0 0 (addDays t 1)\<rparr>"
  using review1 [of tz t] by (simp add: sm2InputOf_def freshCard_def)

text \<open>
  C9. For an existing card of the user, \<open>resetCard\<close> (its write committing) returns the
  card with exactly ease factor 2.5, interval 0, repetitions 0, \<open>nextReviewAt = now\<close> and
  \<open>lastReviewAt = null\<close>, every other column as before, and stores it in place of the
  card; the other cards are untouched. No outcome of \<open>resetCard\<close> changes, removes or adds
  a review record. A following review of quality 5 computes the same step as the first
  review of a newly created card, whatever the state of the card before the reset: ease
  factor 2.6, interval 1, 1 repetition, due at the start of the next day.
\<close>

theorem resetCard_spec:
  "(\<forall>row. findCard db userId cid = Some row \<longrightarrow>
      resetCard Commits now userId cid db =
        (Inr (row\<lparr> Card.easeFactor := 5 / 2, Card.interval := 0, Card.repetitions := 0,
                   nextReviewAt := now, lastReviewAt := None \<rparr>),
         db\<lparr>cards := map (\<lambda>c. if card_id c = cid
                               then c\<lparr> Card.easeFactor := 5 / 2, Card.interval := 0,
                                      Card.repetitions := 0, nextReviewAt := now,
                                      lastReviewAt := None \<rparr>
                               else c) (cards db)\<rparr>) \<and>
      calculateSM2 tz t (sm2InputOf 5 (resetData now row)) =
        calculateSM2 tz t (sm2InputOf 5 (freshCard cid' did' t0)) \<and>
      (let row2 = scheduled t (calculateSM2 tz t (sm2InputOf 5 (freshCard cid' did' t0)))
                    (resetData now row)
       in fst (reviewCard Commits Commits tz t userId cid
                 \<lparr>ReviewCardInput.quality = 5, sessionId = sid\<rparr>
                 (snd (resetCard Commits now userId cid db))) = Inr row2 \<and>
          Card.easeFactor row2 = 5854679515581645 / 2251799813685248 \<and>
          Card.interval row2 = 1 \<and> Card.repetitions row2 = 1 \<and>
          nextReviewAt row2 = setHours tz 0 0 0 0 (addDays t 1) \<and>
          lastReviewAt row2 = Some t)) \<and>
   reviews (snd (resetCard updateOutcome now userId cid db)) = reviews db \<and>
   decks (snd (resetCard updateOutcome now userId cid db)) = decks db \<and>
   sessions (snd (resetCard updateOutcome now userId cid db)) = sessions db"
proof (intro conjI allI impI)
  fix row assume f: "findCard db userId cid = Some row"
  have rd: "resetData now = (\<lambda>c. c\<lparr> Card.easeFactor := 5 / 2, Card.interval := 0,
      Card.repetitions := 0, nextReviewAt := now, lastReviewAt := None \<rparr>)"
    by (simp add: resetData_def DEFAULT_EASE_FACTOR_def lit_2_5 fun_eq_iff)
  have r: "resetCard Commits now userId cid db =
      (Inr (resetData now row), db\<lparr>cards := updateCard cid (resetData now) (cards db)\<rparr>)"
    using f by (simp add: resetCard_def)
  show "resetCard Commits now userId cid db =
        (Inr (row\<lparr> Card.easeFactor := 5 / 2, Card.interval := 0, Card.repetitions := 0,
                   nextReviewAt := now, lastReviewAt := None \<rparr>),
         db\<lparr>cards := map (\<lambda>c. if card_id c = cid
                               then c\<lparr> Card.easeFactor := 5 / 2, Card.interval := 0,
                                      Card.repetitions := 0, nextReviewAt := now,
                                      lastReviewAt := None \<rparr>
                               else c) (cards db)\<rparr>)"
    unfolding r updateCard_def rd ..
  show same: "calculateSM2 tz t (sm2InputOf 5 (resetData now row)) =
        calculateSM2 tz t (sm2InputOf 5 (freshCard cid' did' t0))"
    unfolding sm2_after_reset sm2_fresh ..
  have f1: "findCard (db\<lparr>cards := updateCard cid (resetData now) (cards db)\<rparr>) userId cid =
      Some (resetData now row)"
    by (rule findCard_after_update) (simp_all add: resetData_def f)
  show "let row2 = scheduled t (calculateSM2 tz t (sm2InputOf 5 (freshCard cid' did' t0)))
                    (resetData now row)
       in fst (reviewCard Commits Commits tz t userId cid
                 \<lparr>ReviewCardInput.quality = 5, sessionId = sid\<rparr>
                 (snd (resetCard Commits now userId cid db))) = Inr row2 \<and>
          Card.easeFactor row2 = 5854679515581645 / 2251799813685248 \<and>
          Card.interval row2 = 1 \<and> Card.repetitions row2 = 1 \<and>
          nextReviewAt row2 = setHours tz 0 0 0 0 (addDays t 1) \<and>
          lastReviewAt row2 = Some t"
    unfolding r snd_conv Let_def
    by (simp add: reviewCard_def f1 same [symmetric] sm2_after_reset scheduled_def Let_def)
next
  show "reviews (snd (resetCard updateOutcome now userId cid db)) = reviews db"
    by (cases updateOutcome) (simp_all add: resetCard_def split: option.split)
  show "decks (snd (resetCard updateOutcome now userId cid db)) = decks db"
    by (cases updateOutcome) (simp_all add: resetCard_def split: option.split)
  show "sessions (snd (resetCard updateOutcome now userId cid db)) = sessions db"
    by (cases updateOutcome) (simp_all add: resetCard_def split: option.split)
qed


theorem resetCard_spec_witness:
  "findCard (oneCardStore
       \<lparr> card_id = ''c'', deckId = ''d'', easeFactor = 13 / 10, interval = 40, repetitions = 7,
         nextReviewAt = 5000, lastReviewAt = Some 4000, createdAt = 10 \<rparr> (reviews (historyOf [2, 5]))) ''u'' ''c'' =
     Some \<lparr> card_id = ''c'', deckId = ''d'', easeFactor = 13 / 10, interval = 40,
            repetitions = 7, nextReviewAt = 5000, lastReviewAt = Some 4000, createdAt = 10 \<rparr> \<and>
   fst (resetCard Commits 9000 ''u'' ''c'' (oneCardStore
       \<lparr> card_id = ''c'', deckId = ''d'', easeFactor = 13 / 10, interval = 40, repetitions = 7,
         nextReviewAt = 5000, lastReviewAt = Some 4000, createdAt = 10 \<rparr> (reviews (historyOf [2, 5])))) =
     Inr \<lparr> card_id = ''c'', deckId = ''d'', easeFactor = 5 / 2, interval = 0,
           repetitions = 0, nextReviewAt = 9000, lastReviewAt = None, createdAt = 10 \<rparr> \<and>
   reviews (snd (resetCard Commits 9000 ''u'' ''c'' (oneCardStore
       \<lparr> card_id = ''c'', deckId = ''d'', easeFactor = 13 / 10, interval = 40, repetitions = 7,
         nextReviewAt = 5000, lastReviewAt = Some 4000, createdAt = 10 \<rparr> (reviews (historyOf [2, 5]))))) = reviews (historyOf [2, 5])"
proof -
  let ?row = "\<lparr> card_id = ''c'', deckId = ''d'', easeFactor = 13 / 10, interval = 40,
      repetitions = 7, nextReviewAt = 5000, lastReviewAt = Some 4000, createdAt = 10 \<rparr>"
  let ?db = "oneCardStore ?row (reviews (historyOf [2, 5]))"
  have f: "findCard ?db ''u'' ''c'' = Some ?row"
    by (simp add: findCard_def oneCardStore_def)
  have rv: "reviews ?db = reviews (historyOf [2, 5])" by (simp add: oneCardStore_def)
  note t = resetCard_spec [where db = ?db and userId = "''u''" and cid = "''c''" and now = 9000
      and updateOutcome = Commits]
  have "resetCard Commits 9000 ''u'' ''c'' ?db =
        (Inr (?row\<lparr> Card.easeFactor := 5 / 2, Card.interval := 0, Card.repetitions := 0,
                   nextReviewAt := 9000, lastReviewAt := None \<rparr>),
         ?db\<lparr>cards := map (\<lambda>c. if card_id c = ''c''
                               then c\<lparr> Card.easeFactor := 5 / 2, Card.interval := 0,
                                      Card.repetitions := 0, nextReviewAt := 9000,
                                      lastReviewAt := None \<rparr>
                               else c) (cards ?db)\<rparr>)"
    using t [THEN conjunct1, rule_format, OF f, THEN conjunct1] .
  moreover have "reviews (snd (resetCard Commits 9000 ''u'' ''c'' ?db)) = reviews ?db"
    using t [THEN conjunct2, THEN conjunct1] .
  ultimately show ?thesis using f rv by simp
qed

section \<open>The walk over the sub-decks\<close>















section \<open>Random indices\<close>





lemma isRandom_0 [simp]: "isRandom 0"
  by (simp add: isRandom_def)



section \<open>The shuffle\<close>

lemma shuffleLoop_length [simp]: "length (shuffleLoop random k i xs) = length xs"
  by (induction i arbitrary: k xs) (simp_all add: Let_def)

lemma shuffleArray_length [simp]: "length (shuffleArray random xs) = length xs"
  by (simp add: shuffleArray_def)






section \<open>The cards of a study session\<close>





text \<open>When the deck is not one of the user's, \<open>getDueCards\<close> throws \<open>Deck not found\<close>.\<close>

lemma getDueCards_not_found:
  "\<not> list_ex (\<lambda>d. deck_id d = did \<and> deck_userId d = userId) (decks db) \<Longrightarrow>
   getDueCards fuel random tz now db userId did limit includeSubDecks = Some (Inl DeckNotFound)"
  by (simp add: getDueCards_def)








end
